theory Spec2Isabelle
  imports Main
begin

section \<open>The objects the informers deliver\<close>

text \<open>
  The handlers of \<^verbatim>\<open>pkg/controller/listers.go\<close> receive values of type
  \<^verbatim>\<open>interface{}\<close> and inspect them with type assertions, with
  \<^verbatim>\<open>reflect.DeepEqual\<close> and, for pods, with \<^verbatim>\<open>!=\<close> on a pointer field.
  The model keeps what these three operations can tell apart.

  A Go pointer is \<open>Nil\<close> or an address together with the value stored there (the
  objects are immutable snapshots while a handler runs). Go's \<^verbatim>\<open>==\<close> on
  pointers compares addresses; \<^verbatim>\<open>reflect.DeepEqual\<close> on pointers holds when they
  are \<^verbatim>\<open>==\<close> or point to deeply equal values.
\<close>

type_synonym addr = nat

datatype 'a ptr = Nil | Ref addr 'a

fun ptrEq :: "'a ptr \<Rightarrow> 'a ptr \<Rightarrow> bool" where
  "ptrEq Nil Nil = True"
| "ptrEq (Ref a x) (Ref b y) = (a = b)"
| "ptrEq Nil (Ref b y) = False"
| "ptrEq (Ref a x) Nil = False"

fun deepEqualPtr :: "'a ptr \<Rightarrow> 'a ptr \<Rightarrow> bool" where
  "deepEqualPtr Nil Nil = True"
| "deepEqualPtr (Ref a x) (Ref b y) = (a = b \<or> x = y)"
| "deepEqualPtr Nil (Ref b y) = False"
| "deepEqualPtr (Ref a x) Nil = False"

fun deref :: "'a ptr \<Rightarrow> 'a option" where
  "deref Nil = None"
| "deref (Ref a x) = Some x"

text \<open>Two pointers read from one store: at equal addresses they hold equal values.\<close>

fun sameStore :: "'a ptr \<Rightarrow> 'a ptr \<Rightarrow> bool" where
  "sameStore (Ref a x) (Ref b y) = (if a = b then x = y else True)"
| "sameStore Nil q = True"
| "sameStore (Ref a x) Nil = True"

text \<open>
  \<^verbatim>\<open>metav1.ObjectMeta\<close>, with the fields the handlers read (\<open>Namespace\<close>,
  \<open>Name\<close>, \<open>DeletionTimestamp\<close>, declared \<^verbatim>\<open>*metav1.Time\<close> by the
  Kubernetes API) and the labels and annotations. A Go map is \<open>None\<close> when nil; a
  time is the instant it denotes, in seconds.
\<close>

type_synonym time = int

type_synonym gomap = "(string \<rightharpoonup> string) option"

record objectMeta =
  Name :: string
  Namespace :: string
  DeletionTimestamp :: "time ptr"
  Labels :: gomap
  Annotations :: gomap

text \<open>
  Each kind of object extends the metadata. What a handler never reads on its own is
  one component, compared as a whole by \<^verbatim>\<open>reflect.DeepEqual\<close>. A Go slice is
  \<open>None\<close> when nil, which \<^verbatim>\<open>reflect.DeepEqual\<close> tells apart from an empty one.
\<close>

record ingress = objectMeta +
  IngressSpec :: string

record endpointSubset =
  Addresses :: "string list"
  Ports :: "int list"

record endpoints = objectMeta +
  Subsets :: "endpointSubset list option"

record service = objectMeta +
  ServiceSpec :: string

record secret = objectMeta +
  SecretData :: string

record configMap = objectMeta +
  ConfigData :: string

record pod = objectMeta +
  PodSpec :: string

record node = objectMeta +
  NodeSpec :: string

text \<open>
  The dynamic type of an \<^verbatim>\<open>interface{}\<close> value: a pointer to one of the seven
  kinds, a \<^verbatim>\<open>cache.DeletedFinalStateUnknown\<close> (a key and the last known object),
  or anything else (a nil interface included).
\<close>

datatype obj =
    IngressObj ingress
  | EndpointsObj endpoints
  | ServiceObj service
  | SecretObj secret
  | ConfigMapObj configMap
  | PodObj pod
  | NodeObj node
  | Tombstone string obj
  | Other string

subsection \<open>Type assertions\<close>

text \<open>
  The two-valued form \<^verbatim>\<open>v, ok := obj.(T)\<close>: \<open>None\<close> is \<^verbatim>\<open>ok == false\<close>. The
  one-valued form \<^verbatim>\<open>obj.(T)\<close> panics where this one gives \<open>None\<close>.
\<close>

fun asIngress :: "obj \<Rightarrow> ingress option" where
  "asIngress (IngressObj i) = Some i"
| "asIngress _ = None"

fun asEndpoints :: "obj \<Rightarrow> endpoints option" where
  "asEndpoints (EndpointsObj e) = Some e"
| "asEndpoints _ = None"

fun asSecret :: "obj \<Rightarrow> secret option" where
  "asSecret (SecretObj s) = Some s"
| "asSecret _ = None"

fun asConfigMap :: "obj \<Rightarrow> configMap option" where
  "asConfigMap (ConfigMapObj c) = Some c"
| "asConfigMap _ = None"

fun asPod :: "obj \<Rightarrow> pod option" where
  "asPod (PodObj p) = Some p"
| "asPod _ = None"

fun asDeletedFinalStateUnknown :: "obj \<Rightarrow> (string \<times> obj) option" where
  "asDeletedFinalStateUnknown (Tombstone k x) = Some (k, x)"
| "asDeletedFinalStateUnknown _ = None"

subsection \<open>reflect.DeepEqual\<close>

definition deepEqualMeta :: "'a objectMeta_scheme \<Rightarrow> 'b objectMeta_scheme \<Rightarrow> bool" where
  "deepEqualMeta m n =
     (Name m = Name n \<and> Namespace m = Namespace n \<and>
      deepEqualPtr (DeletionTimestamp m) (DeletionTimestamp n) \<and>
      Labels m = Labels n \<and> Annotations m = Annotations n)"

definition deepEqualIngress :: "ingress \<Rightarrow> ingress \<Rightarrow> bool" where
  "deepEqualIngress a b = (deepEqualMeta a b \<and> IngressSpec a = IngressSpec b)"

definition deepEqualEndpoints :: "endpoints \<Rightarrow> endpoints \<Rightarrow> bool" where
  "deepEqualEndpoints a b = (deepEqualMeta a b \<and> Subsets a = Subsets b)"

definition deepEqualService :: "service \<Rightarrow> service \<Rightarrow> bool" where
  "deepEqualService a b = (deepEqualMeta a b \<and> ServiceSpec a = ServiceSpec b)"

definition deepEqualSecret :: "secret \<Rightarrow> secret \<Rightarrow> bool" where
  "deepEqualSecret a b = (deepEqualMeta a b \<and> SecretData a = SecretData b)"

definition deepEqualConfigMap :: "configMap \<Rightarrow> configMap \<Rightarrow> bool" where
  "deepEqualConfigMap a b = (deepEqualMeta a b \<and> ConfigData a = ConfigData b)"

definition deepEqualPod :: "pod \<Rightarrow> pod \<Rightarrow> bool" where
  "deepEqualPod a b = (deepEqualMeta a b \<and> PodSpec a = PodSpec b)"

definition deepEqualNode :: "node \<Rightarrow> node \<Rightarrow> bool" where
  "deepEqualNode a b = (deepEqualMeta a b \<and> NodeSpec a = NodeSpec b)"

text \<open>Values of different dynamic types are never deeply equal.\<close>

primrec deepEqual :: "obj \<Rightarrow> obj \<Rightarrow> bool" where
  "deepEqual (IngressObj a) y = (case y of IngressObj b \<Rightarrow> deepEqualIngress a b | _ \<Rightarrow> False)"
| "deepEqual (EndpointsObj a) y = (case y of EndpointsObj b \<Rightarrow> deepEqualEndpoints a b | _ \<Rightarrow> False)"
| "deepEqual (ServiceObj a) y = (case y of ServiceObj b \<Rightarrow> deepEqualService a b | _ \<Rightarrow> False)"
| "deepEqual (SecretObj a) y = (case y of SecretObj b \<Rightarrow> deepEqualSecret a b | _ \<Rightarrow> False)"
| "deepEqual (ConfigMapObj a) y = (case y of ConfigMapObj b \<Rightarrow> deepEqualConfigMap a b | _ \<Rightarrow> False)"
| "deepEqual (PodObj a) y = (case y of PodObj b \<Rightarrow> deepEqualPod a b | _ \<Rightarrow> False)"
| "deepEqual (NodeObj a) y = (case y of NodeObj b \<Rightarrow> deepEqualNode a b | _ \<Rightarrow> False)"
| "deepEqual (Tombstone k x) y = (case y of Tombstone j z \<Rightarrow> k = j \<and> deepEqual x z | _ \<Rightarrow> False)"
| "deepEqual (Other s) y = (case y of Other t \<Rightarrow> s = t | _ \<Rightarrow> False)"

section \<open>The collaborators and what a handler does to them\<close>

text \<open>
  \<^verbatim>\<open>ListerEvents\<close> is the sink. Its five notification methods return nothing, so a
  call of one is recorded as a signal; \<^verbatim>\<open>IsValidClass\<close> is a function of the
  ingress. The recorder's \<^verbatim>\<open>Eventf\<close> and the logger's \<^verbatim>\<open>Error\<close> are
  recorded with their arguments. One list holds all of them, in the order of the calls.
\<close>

record listerEvents =
  IsValidClass :: "ingress \<Rightarrow> bool"

datatype signal =
    Notify
  | UpdateSecret string
  | DeleteSecret string
  | AddConfigMap configMap
  | UpdateConfigMap configMap

datatype effect =
    Signal signal
  | Eventf ingress string string string
  | LoggerError string obj

text \<open>A Go function returns, or panics; either way the calls made so far have happened.\<close>

datatype run = Returned "effect list" | Panicked "effect list"

fun andThen :: "run \<Rightarrow> run \<Rightarrow> run" where
  "andThen (Returned t) (Returned u) = Returned (t @ u)"
| "andThen (Returned t) (Panicked u) = Panicked (t @ u)"
| "andThen (Panicked t) r = Panicked t"

fun effects :: "run \<Rightarrow> effect list" where
  "effects (Returned t) = t"
| "effects (Panicked t) = t"

text \<open>
  The three collaborators of the \<^verbatim>\<open>listers\<close> struct are interface values: \<open>None\<close>
  is the nil interface, and a method call on it panics.
\<close>

datatype loggerImpl = LoggerImpl

datatype recorderImpl = RecorderImpl

record collaborators =
  events :: "listerEvents option"
  logger :: "loggerImpl option"
  recorder :: "recorderImpl option"

definition eventsNotify :: "'a collaborators_scheme \<Rightarrow> run" where
  "eventsNotify l = (case events l of None \<Rightarrow> Panicked [] | Some ev \<Rightarrow> Returned [Signal Notify])"

definition eventsUpdateSecret :: "'a collaborators_scheme \<Rightarrow> string \<Rightarrow> run" where
  "eventsUpdateSecret l key =
     (case events l of None \<Rightarrow> Panicked [] | Some ev \<Rightarrow> Returned [Signal (UpdateSecret key)])"

definition eventsDeleteSecret :: "'a collaborators_scheme \<Rightarrow> string \<Rightarrow> run" where
  "eventsDeleteSecret l key =
     (case events l of None \<Rightarrow> Panicked [] | Some ev \<Rightarrow> Returned [Signal (DeleteSecret key)])"

definition eventsAddConfigMap :: "'a collaborators_scheme \<Rightarrow> configMap \<Rightarrow> run" where
  "eventsAddConfigMap l cm =
     (case events l of None \<Rightarrow> Panicked [] | Some ev \<Rightarrow> Returned [Signal (AddConfigMap cm)])"

definition eventsUpdateConfigMap :: "'a collaborators_scheme \<Rightarrow> configMap \<Rightarrow> run" where
  "eventsUpdateConfigMap l cm =
     (case events l of None \<Rightarrow> Panicked [] | Some ev \<Rightarrow> Returned [Signal (UpdateConfigMap cm)])"

text \<open>
  \<^verbatim>\<open>l.recorder.Eventf(ing, api.EventTypeNormal, reason, fmt.Sprintf("Ingress %s/%s",
  ing.Namespace, ing.Name))\<close>
\<close>

definition recorderEventf :: "'a collaborators_scheme \<Rightarrow> ingress \<Rightarrow> string \<Rightarrow> run" where
  "recorderEventf l ing reason =
     (case recorder l of
        None \<Rightarrow> Panicked []
      | Some rc \<Rightarrow>
          Returned [Eventf ing ''Normal'' reason (''Ingress '' @ Namespace ing @ ''/'' @ Name ing)])"

definition loggerError :: "'a collaborators_scheme \<Rightarrow> string \<Rightarrow> obj \<Rightarrow> run" where
  "loggerError l msg x =
     (case logger l of None \<Rightarrow> Panicked [] | Some lg \<Rightarrow> Returned [LoggerError msg x])"

section \<open>The event handlers\<close>

text \<open>
  Every closure of \<^verbatim>\<open>listers.go\<close> reads the collaborators through \<^verbatim>\<open>l\<close>,
  which \<^verbatim>\<open>createListers\<close> sets once, before any handler is registered.
\<close>

subsection \<open>createIngressLister\<close>

definition ingressAddFunc :: "'a collaborators_scheme \<Rightarrow> obj \<Rightarrow> run" where
  "ingressAddFunc l x =
     (case asIngress x of
        None \<Rightarrow> Panicked []
      | Some ing \<Rightarrow>
          (case events l of
             None \<Rightarrow> Panicked []
           | Some ev \<Rightarrow>
               if IsValidClass ev ing
               then andThen (eventsNotify l) (recorderEventf l ing ''CREATE'')
               else Returned []))"

definition ingressUpdateFunc :: "'a collaborators_scheme \<Rightarrow> obj \<Rightarrow> obj \<Rightarrow> run" where
  "ingressUpdateFunc l old cur =
     (if deepEqual old cur then Returned []
      else
        (case asIngress old of
           None \<Rightarrow> Panicked []
         | Some oldIng \<Rightarrow>
             (case asIngress cur of
                None \<Rightarrow> Panicked []
              | Some curIng \<Rightarrow>
                  (case events l of
                     None \<Rightarrow> Panicked []
                   | Some ev \<Rightarrow>
                       (let oldValid = IsValidClass ev oldIng;
                            curValid = IsValidClass ev curIng
                        in if \<not> oldValid \<and> \<not> curValid then Returned []
                           else andThen
                                  (if \<not> oldValid \<and> curValid
                                   then recorderEventf l curIng ''CREATE''
                                   else if oldValid \<and> \<not> curValid
                                   then recorderEventf l curIng ''DELETE''
                                   else recorderEventf l curIng ''UPDATE'')
                                  (eventsNotify l))))))"

text \<open>The last five lines of the delete closure, run once \<^verbatim>\<open>ing\<close> is known.\<close>

definition ingressDeleteFuncTail :: "'a collaborators_scheme \<Rightarrow> ingress \<Rightarrow> run" where
  "ingressDeleteFuncTail l ing =
     (case events l of
        None \<Rightarrow> Panicked []
      | Some ev \<Rightarrow>
          if \<not> IsValidClass ev ing then Returned []
          else andThen (recorderEventf l ing ''DELETE'') (eventsNotify l))"

definition ingressDeleteFunc :: "'a collaborators_scheme \<Rightarrow> obj \<Rightarrow> run" where
  "ingressDeleteFunc l x =
     (case asIngress x of
        Some ing \<Rightarrow> ingressDeleteFuncTail l ing
      | None \<Rightarrow>
          (case asDeletedFinalStateUnknown x of
             None \<Rightarrow> loggerError l ''couldn't get object from tombstone %#v'' x
           | Some tombstone \<Rightarrow>
               (case asIngress (snd tombstone) of
                  None \<Rightarrow> loggerError l ''Tombstone contained object that is not an Ingress: %#v'' x
                | Some ing \<Rightarrow> ingressDeleteFuncTail l ing)))"

subsection \<open>createEndpointLister\<close>

text \<open>
  \<^verbatim>\<open>!reflect.DeepEqual(oldEP.Subsets, curEP.Subsets)\<close>: the subsets of the model
  hold no pointer, so the two are deeply equal exactly when they are equal.
\<close>

definition endpointAddFunc :: "'a collaborators_scheme \<Rightarrow> obj \<Rightarrow> run" where
  "endpointAddFunc l x = eventsNotify l"

definition endpointUpdateFunc :: "'a collaborators_scheme \<Rightarrow> obj \<Rightarrow> obj \<Rightarrow> run" where
  "endpointUpdateFunc l old cur =
     (case asEndpoints old of
        None \<Rightarrow> Panicked []
      | Some oldEP \<Rightarrow>
          (case asEndpoints cur of
             None \<Rightarrow> Panicked []
           | Some curEP \<Rightarrow>
               if Subsets oldEP \<noteq> Subsets curEP then eventsNotify l else Returned []))"

definition endpointDeleteFunc :: "'a collaborators_scheme \<Rightarrow> obj \<Rightarrow> run" where
  "endpointDeleteFunc l x = eventsNotify l"

subsection \<open>createSecretLister\<close>

definition secretAddFunc :: "'a collaborators_scheme \<Rightarrow> obj \<Rightarrow> run" where
  "secretAddFunc l x = eventsNotify l"

text \<open>\<^verbatim>\<open>fmt.Sprintf("%v/%v", sec.Namespace, sec.Name)\<close>\<close>

definition secretKey :: "secret \<Rightarrow> string" where
  "secretKey sec = Namespace sec @ ''/'' @ Name sec"

definition secretUpdateFunc :: "'a collaborators_scheme \<Rightarrow> obj \<Rightarrow> obj \<Rightarrow> run" where
  "secretUpdateFunc l old cur =
     (if \<not> deepEqual old cur
      then (case asSecret cur of
              None \<Rightarrow> Panicked []
            | Some sec \<Rightarrow> eventsUpdateSecret l (secretKey sec))
      else Returned [])"

definition secretDeleteFunc :: "'a collaborators_scheme \<Rightarrow> obj \<Rightarrow> run" where
  "secretDeleteFunc l x =
     (case asSecret x of
        Some sec \<Rightarrow> eventsDeleteSecret l (secretKey sec)
      | None \<Rightarrow>
          (case asDeletedFinalStateUnknown x of
             None \<Rightarrow> loggerError l ''couldn't get object from tombstone %#v'' x
           | Some tombstone \<Rightarrow>
               (case asSecret (snd tombstone) of
                  None \<Rightarrow> loggerError l ''Tombstone contained object that is not a Secret: %#v'' x
                | Some sec \<Rightarrow> eventsDeleteSecret l (secretKey sec))))"

subsection \<open>createConfigMapLister\<close>

definition configMapAddFunc :: "'a collaborators_scheme \<Rightarrow> obj \<Rightarrow> run" where
  "configMapAddFunc l x =
     (case asConfigMap x of
        None \<Rightarrow> Panicked []
      | Some cm \<Rightarrow> eventsAddConfigMap l cm)"

definition configMapUpdateFunc :: "'a collaborators_scheme \<Rightarrow> obj \<Rightarrow> obj \<Rightarrow> run" where
  "configMapUpdateFunc l old cur =
     (if \<not> deepEqual old cur
      then (case asConfigMap cur of
              None \<Rightarrow> Panicked []
            | Some cm \<Rightarrow> eventsUpdateConfigMap l cm)
      else Returned [])"

subsection \<open>createPodLister\<close>

text \<open>
  \<^verbatim>\<open>oldPod.DeletionTimestamp != curPod.DeletionTimestamp\<close> compares two values of
  type \<^verbatim>\<open>*metav1.Time\<close>: the pointers, not the times.
\<close>

definition podUpdateFunc :: "'a collaborators_scheme \<Rightarrow> obj \<Rightarrow> obj \<Rightarrow> run" where
  "podUpdateFunc l old cur =
     (case asPod old of
        None \<Rightarrow> Panicked []
      | Some oldPod \<Rightarrow>
          (case asPod cur of
             None \<Rightarrow> Panicked []
           | Some curPod \<Rightarrow>
               if \<not> ptrEq (DeletionTimestamp oldPod) (DeletionTimestamp curPod)
               then eventsNotify l
               else Returned []))"

definition podDeleteFunc :: "'a collaborators_scheme \<Rightarrow> obj \<Rightarrow> run" where
  "podDeleteFunc l x = eventsNotify l"

subsection \<open>Registration and delivery\<close>

text \<open>
  \<^verbatim>\<open>cache.ResourceEventHandlerFuncs\<close>: three optional functions. Its methods
  \<^verbatim>\<open>OnAdd\<close>, \<^verbatim>\<open>OnUpdate\<close> and \<^verbatim>\<open>OnDelete\<close> call the function when it is set
  and do nothing otherwise.
\<close>

record resourceEventHandlerFuncs =
  AddFunc :: "(obj \<Rightarrow> run) option"
  UpdateFunc :: "(obj \<Rightarrow> obj \<Rightarrow> run) option"
  DeleteFunc :: "(obj \<Rightarrow> run) option"

definition OnAdd :: "resourceEventHandlerFuncs \<Rightarrow> obj \<Rightarrow> run" where
  "OnAdd r x = (case AddFunc r of None \<Rightarrow> Returned [] | Some f \<Rightarrow> f x)"

definition OnUpdate :: "resourceEventHandlerFuncs \<Rightarrow> obj \<Rightarrow> obj \<Rightarrow> run" where
  "OnUpdate r old cur = (case UpdateFunc r of None \<Rightarrow> Returned [] | Some f \<Rightarrow> f old cur)"

definition OnDelete :: "resourceEventHandlerFuncs \<Rightarrow> obj \<Rightarrow> run" where
  "OnDelete r x = (case DeleteFunc r of None \<Rightarrow> Returned [] | Some f \<Rightarrow> f x)"

definition ingressHandlers :: "'a collaborators_scheme \<Rightarrow> resourceEventHandlerFuncs" where
  "ingressHandlers l =
     \<lparr>AddFunc = Some (ingressAddFunc l),
      UpdateFunc = Some (ingressUpdateFunc l),
      DeleteFunc = Some (ingressDeleteFunc l)\<rparr>"

definition endpointHandlers :: "'a collaborators_scheme \<Rightarrow> resourceEventHandlerFuncs" where
  "endpointHandlers l =
     \<lparr>AddFunc = Some (endpointAddFunc l),
      UpdateFunc = Some (endpointUpdateFunc l),
      DeleteFunc = Some (endpointDeleteFunc l)\<rparr>"

definition secretHandlers :: "'a collaborators_scheme \<Rightarrow> resourceEventHandlerFuncs" where
  "secretHandlers l =
     \<lparr>AddFunc = Some (secretAddFunc l),
      UpdateFunc = Some (secretUpdateFunc l),
      DeleteFunc = Some (secretDeleteFunc l)\<rparr>"

definition configMapHandlers :: "'a collaborators_scheme \<Rightarrow> resourceEventHandlerFuncs" where
  "configMapHandlers l =
     \<lparr>AddFunc = Some (configMapAddFunc l),
      UpdateFunc = Some (configMapUpdateFunc l),
      DeleteFunc = None\<rparr>"

definition podHandlers :: "'a collaborators_scheme \<Rightarrow> resourceEventHandlerFuncs" where
  "podHandlers l =
     \<lparr>AddFunc = None,
      UpdateFunc = Some (podUpdateFunc l),
      DeleteFunc = Some (podDeleteFunc l)\<rparr>"

text \<open>
  A raw event of an informer, and its delivery to a registered handler: the informer
  calls \<^verbatim>\<open>OnAdd\<close>, \<^verbatim>\<open>OnUpdate\<close> or \<^verbatim>\<open>OnDelete\<close>.
\<close>

datatype rawEvent = Added obj | Updated obj obj | Deleted obj

fun deliver :: "resourceEventHandlerFuncs \<Rightarrow> rawEvent \<Rightarrow> run" where
  "deliver r (Added x) = OnAdd r x"
| "deliver r (Updated old cur) = OnUpdate r old cur"
| "deliver r (Deleted x) = OnDelete r x"

text \<open>The signals a run has sent to the sink, in order.\<close>

fun signalsOf :: "effect list \<Rightarrow> signal list" where
  "signalsOf [] = []"
| "signalsOf (Signal s # t) = s # signalsOf t"
| "signalsOf (Eventf i ty reason msg # t) = signalsOf t"
| "signalsOf (LoggerError msg x # t) = signalsOf t"

definition signals :: "run \<Rightarrow> signal list" where
  "signals r = signalsOf (effects r)"

section \<open>createListers\<close>

text \<open>
  The informers come from a shared informer factory: a client, a resync period and an
  option. \<^verbatim>\<open>api.NamespaceAll\<close> is the empty string. A typed informer of the
  factory gives a lister and the shared informer that handlers are added to.
\<close>

datatype kind = Ingress | Endpoints | Service | Secret | ConfigMap | Pod | Node

datatype clientset = Clientset string | FakeSimpleClientset

datatype sharedInformerOption = WithTweakListOptionsNil | WithNamespace string

record sharedInformerFactory =
  factoryClient :: clientset
  factoryResync :: int
  factoryOptions :: "sharedInformerOption list"

definition NewSharedInformerFactoryWithOptions ::
    "clientset \<Rightarrow> int \<Rightarrow> sharedInformerOption \<Rightarrow> sharedInformerFactory" where
  "NewSharedInformerFactoryWithOptions c d opt =
     \<lparr>factoryClient = c, factoryResync = d, factoryOptions = [opt]\<rparr>"

definition NewSharedInformerFactory :: "clientset \<Rightarrow> int \<Rightarrow> sharedInformerFactory" where
  "NewSharedInformerFactory c d = \<lparr>factoryClient = c, factoryResync = d, factoryOptions = []\<rparr>"

record typedInformer =
  informerFactory :: sharedInformerFactory
  informerKind :: kind

datatype lister = ListerOf typedInformer

record sharedInformer =
  informerOf :: typedInformer
  handlers :: "resourceEventHandlerFuncs list"

definition Lister :: "typedInformer \<Rightarrow> lister" where
  "Lister ti = ListerOf ti"

definition Informer :: "typedInformer \<Rightarrow> sharedInformer" where
  "Informer ti = \<lparr>informerOf = ti, handlers = []\<rparr>"

definition AddEventHandler :: "sharedInformer \<Rightarrow> resourceEventHandlerFuncs \<Rightarrow> sharedInformer" where
  "AddEventHandler si h = si\<lparr>handlers := handlers si @ [h]\<rparr>"

text \<open>
  The \<^verbatim>\<open>listers\<close> struct: the collaborators, seven listers and seven informers,
  all nil until a \<^verbatim>\<open>create...Lister\<close> method sets them.
\<close>

record listers = collaborators +
  ingressLister :: "lister option"
  endpointLister :: "lister option"
  serviceLister :: "lister option"
  secretLister :: "lister option"
  configMapLister :: "lister option"
  podLister :: "lister option"
  nodeLister :: "lister option"
  ingressInformer :: "sharedInformer option"
  endpointInformer :: "sharedInformer option"
  serviceInformer :: "sharedInformer option"
  secretInformer :: "sharedInformer option"
  configMapInformer :: "sharedInformer option"
  podInformer :: "sharedInformer option"
  nodeInformer :: "sharedInformer option"

definition createIngressLister :: "typedInformer \<Rightarrow> listers \<Rightarrow> listers" where
  "createIngressLister informer l =
     l\<lparr>ingressLister := Some (Lister informer),
       ingressInformer := Some (AddEventHandler (Informer informer) (ingressHandlers l))\<rparr>"

definition createEndpointLister :: "typedInformer \<Rightarrow> listers \<Rightarrow> listers" where
  "createEndpointLister informer l =
     l\<lparr>endpointLister := Some (Lister informer),
       endpointInformer := Some (AddEventHandler (Informer informer) (endpointHandlers l))\<rparr>"

definition createServiceLister :: "typedInformer \<Rightarrow> listers \<Rightarrow> listers" where
  "createServiceLister informer l =
     l\<lparr>serviceLister := Some (Lister informer),
       serviceInformer := Some (Informer informer)\<rparr>"

definition createSecretLister :: "typedInformer \<Rightarrow> listers \<Rightarrow> listers" where
  "createSecretLister informer l =
     l\<lparr>secretLister := Some (Lister informer),
       secretInformer := Some (AddEventHandler (Informer informer) (secretHandlers l))\<rparr>"

definition createConfigMapLister :: "typedInformer \<Rightarrow> listers \<Rightarrow> listers" where
  "createConfigMapLister informer l =
     l\<lparr>configMapLister := Some (Lister informer),
       configMapInformer := Some (AddEventHandler (Informer informer) (configMapHandlers l))\<rparr>"

definition createPodLister :: "typedInformer \<Rightarrow> listers \<Rightarrow> listers" where
  "createPodLister informer l =
     l\<lparr>podLister := Some (Lister informer),
       podInformer := Some (AddEventHandler (Informer informer) (podHandlers l))\<rparr>"

definition createNodeLister :: "typedInformer \<Rightarrow> listers \<Rightarrow> listers" where
  "createNodeLister informer l =
     l\<lparr>nodeLister := Some (Lister informer),
       nodeInformer := Some (Informer informer)\<rparr>"

text \<open>
  The result of a constructor: the value it returns, or the error it fails with. The
  Go function has one result, \<^verbatim>\<open>*listers\<close>, and one \<^verbatim>\<open>return\<close>.
\<close>

datatype setupError = ConfigurationError

definition createListers ::
    "listerEvents option \<Rightarrow> loggerImpl option \<Rightarrow> recorderImpl option \<Rightarrow> clientset \<Rightarrow>
     string \<Rightarrow> int \<Rightarrow> setupError + listers" where
  "createListers ev lg rc cl watchNamespace rs =
     (let clusterWatch = (watchNamespace = []);
          opt = (if clusterWatch then WithTweakListOptionsNil else WithNamespace watchNamespace);
          informer = NewSharedInformerFactoryWithOptions cl rs opt;
          l0 = \<lparr>events = ev, logger = lg, recorder = rc,
                ingressLister = None, endpointLister = None, serviceLister = None,
                secretLister = None, configMapLister = None, podLister = None,
                nodeLister = None,
                ingressInformer = None, endpointInformer = None, serviceInformer = None,
                secretInformer = None, configMapInformer = None, podInformer = None,
                nodeInformer = None\<rparr>;
          l1 = createIngressLister \<lparr>informerFactory = informer, informerKind = Ingress\<rparr> l0;
          l2 = createEndpointLister \<lparr>informerFactory = informer, informerKind = Endpoints\<rparr> l1;
          l3 = createServiceLister \<lparr>informerFactory = informer, informerKind = Service\<rparr> l2;
          l4 = createSecretLister \<lparr>informerFactory = informer, informerKind = Secret\<rparr> l3;
          l5 = createConfigMapLister \<lparr>informerFactory = informer, informerKind = ConfigMap\<rparr> l4;
          l6 = createPodLister \<lparr>informerFactory = informer, informerKind = Pod\<rparr> l5;
          l7 = (if clusterWatch
                then createNodeLister \<lparr>informerFactory = informer, informerKind = Node\<rparr> l6
                else
                  (let localInformer = NewSharedInformerFactory FakeSimpleClientset 0
                   in createNodeLister
                        \<lparr>informerFactory = localInformer, informerKind = Node\<rparr> l6))
      in Inr l7)"

section \<open>RunAsync and the wait for the caches\<close>

text \<open>
  What the wait can see at one poll: whether the stop channel is closed, and what
  \<^verbatim>\<open>HasSynced\<close> answers for the informer of each kind. The informers run in
  goroutines of their own; the sequence of polls is how their progress reaches
  \<^verbatim>\<open>RunAsync\<close>.
\<close>

record observation =
  stopFired :: bool
  hasSynced :: "kind \<Rightarrow> bool"

datatype barrierResult = Synced | Cancelled

definition allSynced :: "kind list \<Rightarrow> observation \<Rightarrow> bool" where
  "allSynced watches ob = list_all (hasSynced ob) watches"

text \<open>
  Modelled from the spec: \<^verbatim>\<open>cache.WaitForCacheSync\<close>, the wait that
  \<^verbatim>\<open>RunAsync\<close> calls, belongs to the client library and is not among the sources.
  Section 4.3 of the specification gives its contract: it polls the \<^verbatim>\<open>hasSynced\<close>
  flag of each watch, returns \<open>Synced\<close> only when all of them are true, and returns
  \<open>Cancelled\<close> immediately if the stop signal fires first, regardless of partial
  progress. The polls are the list; \<open>None\<close> is a wait that has not returned when the
  list ends.
\<close>

fun Await :: "kind list \<Rightarrow> observation list \<Rightarrow> barrierResult option" where
  "Await watches [] = None"
| "Await watches (ob # obs) =
     (if stopFired ob then Some Cancelled
      else if allSynced watches ob then Some Synced
      else Await watches obs)"

text \<open>
  What \<^verbatim>\<open>RunAsync\<close> does: the goroutines it starts, the lines it logs, and the
  error it hands to \<^verbatim>\<open>runtime.HandleError\<close>, which reports it and returns.
\<close>

datatype startEffect = GoRun kind | LoggerInfo string | HandleError string

datatype start = StartReturned "startEffect list" | StartPanicked "startEffect list"

fun startThen :: "start \<Rightarrow> start \<Rightarrow> start" where
  "startThen (StartReturned t) (StartReturned u) = StartReturned (t @ u)"
| "startThen (StartReturned t) (StartPanicked u) = StartPanicked (t @ u)"
| "startThen (StartPanicked t) r = StartPanicked t"

text \<open>\<^verbatim>\<open>go informer.Run(stopCh)\<close>: the method value of a nil interface panics.\<close>

definition goRun :: "sharedInformer option \<Rightarrow> start" where
  "goRun si =
     (case si of
        None \<Rightarrow> StartPanicked []
      | Some i \<Rightarrow> StartReturned [GoRun (informerKind (informerOf i))])"

definition loggerInfo :: "'a collaborators_scheme \<Rightarrow> string \<Rightarrow> start" where
  "loggerInfo l msg =
     (case logger l of None \<Rightarrow> StartPanicked [] | Some lg \<Rightarrow> StartReturned [LoggerInfo msg])"

text \<open>The seven \<^verbatim>\<open>HasSynced\<close> method values handed to the wait, by kind.\<close>

definition hasSyncedOf :: "sharedInformer option \<Rightarrow> kind list" where
  "hasSyncedOf si = (case si of None \<Rightarrow> [] | Some i \<Rightarrow> [informerKind (informerOf i)])"

definition cacheSyncs :: "listers \<Rightarrow> kind list" where
  "cacheSyncs l =
     hasSyncedOf (ingressInformer l) @ hasSyncedOf (endpointInformer l) @
     hasSyncedOf (serviceInformer l) @ hasSyncedOf (secretInformer l) @
     hasSyncedOf (configMapInformer l) @ hasSyncedOf (podInformer l) @
     hasSyncedOf (nodeInformer l)"

text \<open>
  \<^verbatim>\<open>RunAsync\<close> has no result: \<open>Some\<close> is a call that came back (returned or
  panicked), \<open>None\<close> one still inside the wait when the polls end.
\<close>

definition RunAsync :: "listers \<Rightarrow> observation list \<Rightarrow> start option" where
  "RunAsync l obs =
     (case startThen (goRun (ingressInformer l))
            (startThen (goRun (endpointInformer l))
            (startThen (goRun (serviceInformer l))
            (startThen (goRun (secretInformer l))
            (startThen (goRun (configMapInformer l))
            (startThen (goRun (podInformer l))
            (startThen (goRun (nodeInformer l))
            (loggerInfo l ''loading object cache...''))))))) of
        StartPanicked t \<Rightarrow> Some (StartPanicked t)
      | StartReturned t \<Rightarrow>
          (case Await (cacheSyncs l) obs of
             None \<Rightarrow> None
           | Some synced \<Rightarrow>
               (case synced of
                  Synced \<Rightarrow>
                    Some (startThen (StartReturned t)
                      (loggerInfo l ''cache successfully synced''))
                | Cancelled \<Rightarrow>
                    Some (StartReturned (t @
                      [HandleError
                         ''initial cache sync has timed out or shutdown has requested''])))))"

section \<open>Properties of the handlers\<close>

lemmas sink_calls = eventsNotify_def eventsUpdateSecret_def eventsDeleteSecret_def
  eventsAddConfigMap_def eventsUpdateConfigMap_def recorderEventf_def loggerError_def

subsection \<open>What createListers registers\<close>

text \<open>A handler set depends on the three collaborators only.\<close>

lemma ingressHandlers_collaborators:
  "ingressHandlers l =
     ingressHandlers \<lparr>events = events l, logger = logger l, recorder = recorder l\<rparr>"
  by (simp add: ingressHandlers_def fun_eq_iff ingressAddFunc_def ingressUpdateFunc_def
      ingressDeleteFunc_def ingressDeleteFuncTail_def sink_calls
      cong: option.case_cong if_cong)

lemma endpointHandlers_collaborators:
  "endpointHandlers l =
     endpointHandlers \<lparr>events = events l, logger = logger l, recorder = recorder l\<rparr>"
  by (simp add: endpointHandlers_def fun_eq_iff endpointAddFunc_def endpointUpdateFunc_def
      endpointDeleteFunc_def sink_calls cong: option.case_cong if_cong)

lemma secretHandlers_collaborators:
  "secretHandlers l =
     secretHandlers \<lparr>events = events l, logger = logger l, recorder = recorder l\<rparr>"
  by (simp add: secretHandlers_def fun_eq_iff secretAddFunc_def secretUpdateFunc_def
      secretDeleteFunc_def sink_calls cong: option.case_cong if_cong)

lemma configMapHandlers_collaborators:
  "configMapHandlers l =
     configMapHandlers \<lparr>events = events l, logger = logger l, recorder = recorder l\<rparr>"
  by (simp add: configMapHandlers_def fun_eq_iff configMapAddFunc_def configMapUpdateFunc_def
      sink_calls cong: option.case_cong if_cong)

lemma podHandlers_collaborators:
  "podHandlers l =
     podHandlers \<lparr>events = events l, logger = logger l, recorder = recorder l\<rparr>"
  by (simp add: podHandlers_def fun_eq_iff podUpdateFunc_def podDeleteFunc_def sink_calls
      cong: option.case_cong if_cong)

text \<open>
  The struct that \<^verbatim>\<open>createListers\<close> returns has one handler set on the ingress,
  endpoint, secret, config map and pod informers, each reading the collaborators given
  to \<^verbatim>\<open>createListers\<close>, and none on the service and node informers.
\<close>

lemma createListers_registers:
  assumes "createListers ev lg rc cl ns rs = Inr l"
  shows "map_option handlers (ingressInformer l) =
           Some [ingressHandlers \<lparr>events = ev, logger = lg, recorder = rc\<rparr>]"
    and "map_option handlers (endpointInformer l) =
           Some [endpointHandlers \<lparr>events = ev, logger = lg, recorder = rc\<rparr>]"
    and "map_option handlers (serviceInformer l) = Some []"
    and "map_option handlers (secretInformer l) =
           Some [secretHandlers \<lparr>events = ev, logger = lg, recorder = rc\<rparr>]"
    and "map_option handlers (configMapInformer l) =
           Some [configMapHandlers \<lparr>events = ev, logger = lg, recorder = rc\<rparr>]"
    and "map_option handlers (podInformer l) =
           Some [podHandlers \<lparr>events = ev, logger = lg, recorder = rc\<rparr>]"
    and "map_option handlers (nodeInformer l) = Some []"
  using assms
  by (auto simp add: createListers_def Let_def createIngressLister_def createEndpointLister_def
      createServiceLister_def createSecretLister_def createConfigMapLister_def
      createPodLister_def createNodeLister_def AddEventHandler_def Informer_def
      ingressHandlers_collaborators [where l = "_ :: listers"]
      endpointHandlers_collaborators [where l = "_ :: listers"]
      secretHandlers_collaborators [where l = "_ :: listers"]
      configMapHandlers_collaborators [where l = "_ :: listers"]
      podHandlers_collaborators [where l = "_ :: listers"]
      split: if_splits)

text \<open>
  In a single namespace the node informer comes from a factory of its own, over a fake
  client set.
\<close>

lemma createListers_node_factory:
  assumes "createListers ev lg rc cl ns rs = Inr l"
  shows "map_option (informerFactory \<circ> informerOf) (nodeInformer l) =
           Some (if ns = [] then NewSharedInformerFactoryWithOptions cl rs WithTweakListOptionsNil
                 else NewSharedInformerFactory FakeSimpleClientset 0)"
  using assms
  by (auto simp add: createListers_def Let_def createIngressLister_def createEndpointLister_def
      createServiceLister_def createSecretLister_def createConfigMapLister_def
      createPodLister_def createNodeLister_def AddEventHandler_def Informer_def
      split: if_splits)

text \<open>With a nil sink the first call of one of its methods panics.\<close>

lemma absent_sink_panics:
  "deliver (endpointHandlers \<lparr>events = None, logger = lg, recorder = rc\<rparr>) (Added x) =
     Panicked []"
  by (simp add: endpointHandlers_def OnAdd_def endpointAddFunc_def sink_calls)

subsection \<open>Ingress\<close>

lemma ingress_added:
  "deliver (ingressHandlers \<lparr>events = Some ev, logger = lg, recorder = Some rc\<rparr>)
       (Added (IngressObj ing)) =
     (if IsValidClass ev ing
      then Returned [Signal Notify,
             Eventf ing ''Normal'' ''CREATE'' (''Ingress '' @ Namespace ing @ ''/'' @ Name ing)]
      else Returned [])"
  by (simp add: ingressHandlers_def OnAdd_def ingressAddFunc_def sink_calls)

text \<open>
  Claim C1. An update of an ingress, from \<open>old\<close> to \<open>cur\<close>: nothing happens when the
  two are deeply equal, and nothing when neither is of a valid class. Otherwise one
  event is recorded on \<open>cur\<close>, with reason CREATE when only \<open>cur\<close> is valid, DELETE when
  only \<open>old\<close> is, UPDATE when both are, and \<^verbatim>\<open>Notify\<close> is called once.
\<close>

theorem ingress_updated_transitions:
  "deliver (ingressHandlers \<lparr>events = Some ev, logger = lg, recorder = Some rc\<rparr>)
       (Updated (IngressObj old) (IngressObj cur)) =
     (if deepEqualIngress old cur then Returned []
      else if \<not> IsValidClass ev old \<and> \<not> IsValidClass ev cur then Returned []
      else if \<not> IsValidClass ev old then
        Returned [Eventf cur ''Normal'' ''CREATE'' (''Ingress '' @ Namespace cur @ ''/'' @ Name cur),
                  Signal Notify]
      else if \<not> IsValidClass ev cur then
        Returned [Eventf cur ''Normal'' ''DELETE'' (''Ingress '' @ Namespace cur @ ''/'' @ Name cur),
                  Signal Notify]
      else
        Returned [Eventf cur ''Normal'' ''UPDATE'' (''Ingress '' @ Namespace cur @ ''/'' @ Name cur),
                  Signal Notify])"
  by (simp add: ingressHandlers_def OnUpdate_def ingressUpdateFunc_def sink_calls Let_def)

text \<open>
  Claim C3 says that the event is recorded before \<^verbatim>\<open>Notify\<close> is called wherever
  both are due. The update and delete closures do so. The add closure calls
  \<^verbatim>\<open>Notify\<close> first and records the event after it: here for the ingress
  \<open>default/web\<close> and a sink that takes every ingress as valid.
\<close>

theorem ingress_added_notifies_before_recording:
  "deliver
      (ingressHandlers \<lparr>events = Some \<lparr>IsValidClass = (\<lambda>i. True)\<rparr>, logger = Some LoggerImpl,
                        recorder = Some RecorderImpl\<rparr>)
      (Added (IngressObj \<lparr>Name = ''web'', Namespace = ''default'', DeletionTimestamp = Nil,
                          Labels = None, Annotations = None, IngressSpec = ''rules''\<rparr>)) =
   Returned [Signal Notify,
             Eventf \<lparr>Name = ''web'', Namespace = ''default'', DeletionTimestamp = Nil,
                     Labels = None, Annotations = None, IngressSpec = ''rules''\<rparr>
               ''Normal'' ''CREATE'' ''Ingress default/web'']"
  by (simp add: ingressHandlers_def OnAdd_def ingressAddFunc_def sink_calls)

subsection \<open>Deleted payloads of ingresses and secrets\<close>

lemma ingress_deleted_object:
  "deliver (ingressHandlers \<lparr>events = Some ev, logger = lg, recorder = Some rc\<rparr>)
       (Deleted (IngressObj ing)) =
     (if IsValidClass ev ing
      then Returned [Eventf ing ''Normal'' ''DELETE'' (''Ingress '' @ Namespace ing @ ''/'' @ Name ing),
                     Signal Notify]
      else Returned [])"
  by (simp add: ingressHandlers_def OnDelete_def ingressDeleteFunc_def ingressDeleteFuncTail_def
      sink_calls)

lemma ingress_deleted_tombstone:
  "deliver (ingressHandlers l) (Deleted (Tombstone k (IngressObj ing))) =
     deliver (ingressHandlers l) (Deleted (IngressObj ing))"
  by (simp add: ingressHandlers_def OnDelete_def ingressDeleteFunc_def)

lemma ingress_deleted_unresolved:
  assumes direct: "asIngress x = None"
    and inner: "case asDeletedFinalStateUnknown x of None \<Rightarrow> True
                | Some t \<Rightarrow> asIngress (snd t) = None"
  shows "deliver (ingressHandlers \<lparr>events = ev, logger = Some lg, recorder = rc\<rparr>) (Deleted x) =
     Returned [LoggerError
        (if asDeletedFinalStateUnknown x = None then ''couldn't get object from tombstone %#v''
         else ''Tombstone contained object that is not an Ingress: %#v'') x]"
proof (cases "asDeletedFinalStateUnknown x")
  case None
  with direct show ?thesis
    by (simp add: ingressHandlers_def OnDelete_def ingressDeleteFunc_def loggerError_def)
next
  case (Some t)
  with inner have "asIngress (snd t) = None" by simp
  with direct Some show ?thesis
    by (simp add: ingressHandlers_def OnDelete_def ingressDeleteFunc_def loggerError_def)
qed

lemma secret_deleted_object:
  "deliver (secretHandlers \<lparr>events = Some ev, logger = lg, recorder = rc\<rparr>)
       (Deleted (SecretObj sec)) =
     Returned [Signal (DeleteSecret (Namespace sec @ ''/'' @ Name sec))]"
  by (simp add: secretHandlers_def OnDelete_def secretDeleteFunc_def secretKey_def
      eventsDeleteSecret_def)

lemma secret_deleted_tombstone:
  "deliver (secretHandlers l) (Deleted (Tombstone k (SecretObj sec))) =
     deliver (secretHandlers l) (Deleted (SecretObj sec))"
  by (simp add: secretHandlers_def OnDelete_def secretDeleteFunc_def)

lemma secret_deleted_unresolved:
  assumes direct: "asSecret x = None"
    and inner: "case asDeletedFinalStateUnknown x of None \<Rightarrow> True
                | Some t \<Rightarrow> asSecret (snd t) = None"
  shows "deliver (secretHandlers \<lparr>events = ev, logger = Some lg, recorder = rc\<rparr>) (Deleted x) =
     Returned [LoggerError
        (if asDeletedFinalStateUnknown x = None then ''couldn't get object from tombstone %#v''
         else ''Tombstone contained object that is not a Secret: %#v'') x]"
proof (cases "asDeletedFinalStateUnknown x")
  case None
  with direct show ?thesis
    by (simp add: secretHandlers_def OnDelete_def secretDeleteFunc_def loggerError_def)
next
  case (Some t)
  with inner have "asSecret (snd t) = None" by simp
  with direct Some show ?thesis
    by (simp add: secretHandlers_def OnDelete_def secretDeleteFunc_def loggerError_def)
qed

text \<open>
  Claim C4. The delete closures of the ingress and secret informers resolve their
  payload in three ways. An object of the expected kind is used as it is. A tombstone
  holding an object of the expected kind is handled as that object is. Anything else
  (not of the kind and not a tombstone, or a tombstone holding another kind) is logged
  as an error, no signal is sent, and the closure returns.
\<close>

theorem deleted_payload_resolution:
  "deliver (ingressHandlers \<lparr>events = Some ev, logger = Some lg, recorder = Some rc\<rparr>)
       (Deleted (IngressObj ing)) =
     (if IsValidClass ev ing
      then Returned [Eventf ing ''Normal'' ''DELETE'' (''Ingress '' @ Namespace ing @ ''/'' @ Name ing),
                     Signal Notify]
      else Returned []) \<and>
   deliver (ingressHandlers \<lparr>events = Some ev, logger = Some lg, recorder = Some rc\<rparr>)
       (Deleted (Tombstone k (IngressObj ing))) =
     deliver (ingressHandlers \<lparr>events = Some ev, logger = Some lg, recorder = Some rc\<rparr>)
       (Deleted (IngressObj ing)) \<and>
   (asIngress x = None \<and>
    (case asDeletedFinalStateUnknown x of None \<Rightarrow> True | Some t \<Rightarrow> asIngress (snd t) = None) \<longrightarrow>
      deliver (ingressHandlers \<lparr>events = Some ev, logger = Some lg, recorder = Some rc\<rparr>)
        (Deleted x) =
      Returned [LoggerError
        (if asDeletedFinalStateUnknown x = None then ''couldn't get object from tombstone %#v''
         else ''Tombstone contained object that is not an Ingress: %#v'') x]) \<and>
   deliver (secretHandlers \<lparr>events = Some ev, logger = Some lg, recorder = Some rc\<rparr>)
       (Deleted (SecretObj sec)) =
     Returned [Signal (DeleteSecret (Namespace sec @ ''/'' @ Name sec))] \<and>
   deliver (secretHandlers \<lparr>events = Some ev, logger = Some lg, recorder = Some rc\<rparr>)
       (Deleted (Tombstone k (SecretObj sec))) =
     deliver (secretHandlers \<lparr>events = Some ev, logger = Some lg, recorder = Some rc\<rparr>)
       (Deleted (SecretObj sec)) \<and>
   (asSecret y = None \<and>
    (case asDeletedFinalStateUnknown y of None \<Rightarrow> True | Some t \<Rightarrow> asSecret (snd t) = None) \<longrightarrow>
      deliver (secretHandlers \<lparr>events = Some ev, logger = Some lg, recorder = Some rc\<rparr>)
        (Deleted y) =
      Returned [LoggerError
        (if asDeletedFinalStateUnknown y = None then ''couldn't get object from tombstone %#v''
         else ''Tombstone contained object that is not a Secret: %#v'') y])"
proof (intro conjI impI)
  show "deliver (ingressHandlers \<lparr>events = Some ev, logger = Some lg, recorder = Some rc\<rparr>)
       (Deleted (IngressObj ing)) =
     (if IsValidClass ev ing
      then Returned [Eventf ing ''Normal'' ''DELETE'' (''Ingress '' @ Namespace ing @ ''/'' @ Name ing),
                     Signal Notify]
      else Returned [])"
    by (rule ingress_deleted_object)
  show "deliver (ingressHandlers \<lparr>events = Some ev, logger = Some lg, recorder = Some rc\<rparr>)
       (Deleted (Tombstone k (IngressObj ing))) =
     deliver (ingressHandlers \<lparr>events = Some ev, logger = Some lg, recorder = Some rc\<rparr>)
       (Deleted (IngressObj ing))"
    by (rule ingress_deleted_tombstone)
  show "deliver (secretHandlers \<lparr>events = Some ev, logger = Some lg, recorder = Some rc\<rparr>)
       (Deleted (SecretObj sec)) =
     Returned [Signal (DeleteSecret (Namespace sec @ ''/'' @ Name sec))]"
    by (rule secret_deleted_object)
  show "deliver (secretHandlers \<lparr>events = Some ev, logger = Some lg, recorder = Some rc\<rparr>)
       (Deleted (Tombstone k (SecretObj sec))) =
     deliver (secretHandlers \<lparr>events = Some ev, logger = Some lg, recorder = Some rc\<rparr>)
       (Deleted (SecretObj sec))"
    by (rule secret_deleted_tombstone)
next
  assume "asIngress x = None \<and>
    (case asDeletedFinalStateUnknown x of None \<Rightarrow> True | Some t \<Rightarrow> asIngress (snd t) = None)"
  then show "deliver (ingressHandlers \<lparr>events = Some ev, logger = Some lg, recorder = Some rc\<rparr>)
        (Deleted x) =
      Returned [LoggerError
        (if asDeletedFinalStateUnknown x = None then ''couldn't get object from tombstone %#v''
         else ''Tombstone contained object that is not an Ingress: %#v'') x]"
    using ingress_deleted_unresolved by blast
next
  assume "asSecret y = None \<and>
    (case asDeletedFinalStateUnknown y of None \<Rightarrow> True | Some t \<Rightarrow> asSecret (snd t) = None)"
  then show "deliver (secretHandlers \<lparr>events = Some ev, logger = Some lg, recorder = Some rc\<rparr>)
        (Deleted y) =
      Returned [LoggerError
        (if asDeletedFinalStateUnknown y = None then ''couldn't get object from tombstone %#v''
         else ''Tombstone contained object that is not a Secret: %#v'') y]"
    using secret_deleted_unresolved by blast
qed

theorem deleted_payload_resolution_witness:
  "deliver (ingressHandlers \<lparr>events = Some \<lparr>IsValidClass = (\<lambda>i. True)\<rparr>,
                             logger = Some LoggerImpl, recorder = Some RecorderImpl\<rparr>)
       (Deleted (Other ''nil'')) =
     Returned [LoggerError ''couldn't get object from tombstone %#v'' (Other ''nil'')] \<and>
   deliver (secretHandlers \<lparr>events = Some \<lparr>IsValidClass = (\<lambda>i. True)\<rparr>,
                            logger = Some LoggerImpl, recorder = Some RecorderImpl\<rparr>)
       (Deleted (Tombstone ''default/tls'' (Other ''nil''))) =
     Returned [LoggerError ''Tombstone contained object that is not a Secret: %#v''
                 (Tombstone ''default/tls'' (Other ''nil''))]"
  using deleted_payload_resolution
    [where x = "Other ''nil''" and y = "Tombstone ''default/tls'' (Other ''nil'')"
       and ev = "\<lparr>IsValidClass = (\<lambda>i. True)\<rparr>" and lg = LoggerImpl and rc = RecorderImpl]
  by simp

subsection \<open>Secrets\<close>

text \<open>
  Claim C2 says that an added secret sends no signal. The add closure of
  \<^verbatim>\<open>createSecretLister\<close> calls \<^verbatim>\<open>Notify\<close>: here for the secret
  \<open>default/tls\<close>.
\<close>

theorem secret_added_signals_counterexample:
  "signals (deliver
      (secretHandlers \<lparr>events = Some \<lparr>IsValidClass = (\<lambda>i. True)\<rparr>, logger = Some LoggerImpl,
                       recorder = Some RecorderImpl\<rparr>)
      (Added (SecretObj \<lparr>Name = ''tls'', Namespace = ''default'', DeletionTimestamp = Nil,
                         Labels = None, Annotations = None, SecretData = ''cert''\<rparr>))) \<noteq> []"
  by (simp add: signals_def secretHandlers_def OnAdd_def secretAddFunc_def sink_calls)

text \<open>
  Claim C2, amended. For every added payload, the secret handlers call \<^verbatim>\<open>Notify\<close>
  once and send nothing else.
\<close>

theorem secret_added_notifies:
  "deliver (secretHandlers \<lparr>events = Some ev, logger = lg, recorder = rc\<rparr>) (Added x) =
     Returned [Signal Notify]"
  by (simp add: secretHandlers_def OnAdd_def secretAddFunc_def sink_calls)

subsection \<open>createListers and an absent sink\<close>

text \<open>
  Claim C5 says that \<^verbatim>\<open>createListers\<close> fails with a configuration error when
  the sink is absent. It returns a struct: here with a nil sink, watching every
  namespace.
\<close>

theorem createListers_absent_sink_counterexample:
  "createListers None (Some LoggerImpl) (Some RecorderImpl) (Clientset ''cluster'') [] 0
     \<noteq> Inl ConfigurationError"
  by (simp add: createListers_def Let_def)

text \<open>
  Claim C5, amended. \<^verbatim>\<open>createListers\<close> checks none of its arguments and never
  fails: for every sink, absent or present, it returns the struct, which holds the
  sink, the logger and the recorder it was given.
\<close>

theorem createListers_always_returns:
  "\<exists>l. createListers ev lg rc cl ns rs = Inr l \<and>
        events l = ev \<and> logger l = lg \<and> recorder l = rc"
  by (simp add: createListers_def Let_def createIngressLister_def createEndpointLister_def
      createServiceLister_def createSecretLister_def createConfigMapLister_def
      createPodLister_def createNodeLister_def)

subsection \<open>Endpoints\<close>

text \<open>
  Claim C6. An update of an endpoints object calls \<^verbatim>\<open>Notify\<close> once when the
  subsets of old and new differ and does nothing when they are equal, whatever the
  labels and annotations are; an added and a deleted payload each give one
  \<^verbatim>\<open>Notify\<close>.
\<close>

theorem endpoints_signals:
  "deliver (endpointHandlers \<lparr>events = Some ev, logger = lg, recorder = rc\<rparr>)
       (Updated (EndpointsObj old) (EndpointsObj cur)) =
     (if Subsets old = Subsets cur then Returned [] else Returned [Signal Notify]) \<and>
   deliver (endpointHandlers \<lparr>events = Some ev, logger = lg, recorder = rc\<rparr>)
       (Updated (EndpointsObj old) (EndpointsObj (old\<lparr>Labels := lb, Annotations := an\<rparr>))) =
     Returned [] \<and>
   deliver (endpointHandlers \<lparr>events = Some ev, logger = lg, recorder = rc\<rparr>) (Added x) =
     Returned [Signal Notify] \<and>
   deliver (endpointHandlers \<lparr>events = Some ev, logger = lg, recorder = rc\<rparr>) (Deleted x) =
     Returned [Signal Notify]"
  by (simp add: endpointHandlers_def OnAdd_def OnUpdate_def OnDelete_def endpointAddFunc_def
      endpointUpdateFunc_def endpointDeleteFunc_def sink_calls)

subsection \<open>Pods\<close>

lemma pod_updated_pointer_comparison:
  "deliver (podHandlers \<lparr>events = Some ev, logger = lg, recorder = rc\<rparr>)
       (Updated (PodObj old) (PodObj cur)) =
     (if ptrEq (DeletionTimestamp old) (DeletionTimestamp cur) then Returned []
      else Returned [Signal Notify])"
  by (simp add: podHandlers_def OnUpdate_def podUpdateFunc_def sink_calls)

lemma pod_added_nothing:
  "deliver (podHandlers l) (Added x) = Returned []"
  by (simp add: podHandlers_def OnAdd_def)

lemma ptrEq_deref:
  assumes "sameStore p q" and "ptrEq p q"
  shows "deref p = deref q"
  using assms by (cases p; cases q) (simp_all split: if_splits)

text \<open>A deletion time that changed is always noticed.\<close>

lemma pod_updated_changed_time:
  assumes store: "sameStore (DeletionTimestamp old) (DeletionTimestamp cur)"
    and changed: "deref (DeletionTimestamp old) \<noteq> deref (DeletionTimestamp cur)"
  shows "deliver (podHandlers \<lparr>events = Some ev, logger = lg, recorder = rc\<rparr>)
           (Updated (PodObj old) (PodObj cur)) = Returned [Signal Notify]"
proof -
  from store changed have "\<not> ptrEq (DeletionTimestamp old) (DeletionTimestamp cur)"
    using ptrEq_deref by blast
  then show ?thesis
    using pod_updated_pointer_comparison [of ev lg rc old cur] by simp
qed

text \<open>
  Claim C7 says that an update of a pod calls \<^verbatim>\<open>Notify\<close> exactly when the
  deletion timestamp changed, and never for a change of labels alone. The closure
  compares the two pointers. Here a pod under deletion has its label changed: the old
  and the new object hold the same deletion time at two addresses, and \<^verbatim>\<open>Notify\<close>
  is called.
\<close>

theorem pod_updated_same_time_notifies:
  "deref (Ref 1 (1700000000::time)) = deref (Ref 2 1700000000) \<and>
   deliver
      (podHandlers \<lparr>events = Some \<lparr>IsValidClass = (\<lambda>i. True)\<rparr>, logger = Some LoggerImpl,
                    recorder = Some RecorderImpl\<rparr>)
      (Updated
        (PodObj \<lparr>Name = ''web-0'', Namespace = ''default'',
                 DeletionTimestamp = Ref 1 1700000000,
                 Labels = Some [''app'' \<mapsto> ''v1''], Annotations = None,
                 PodSpec = ''containers''\<rparr>)
        (PodObj \<lparr>Name = ''web-0'', Namespace = ''default'',
                 DeletionTimestamp = Ref 2 1700000000,
                 Labels = Some [''app'' \<mapsto> ''v2''], Annotations = None,
                 PodSpec = ''containers''\<rparr>)) =
   Returned [Signal Notify]"
  by (simp add: podHandlers_def OnUpdate_def podUpdateFunc_def sink_calls)

subsection \<open>Config maps\<close>

text \<open>
  Claim C8. An added config map gives one \<^verbatim>\<open>AddConfigMap\<close> carrying it; an update
  gives one \<^verbatim>\<open>UpdateConfigMap\<close> when old and new are not deeply equal and nothing
  otherwise; a deleted payload gives nothing.
\<close>

theorem configMap_signals:
  "deliver (configMapHandlers \<lparr>events = Some ev, logger = lg, recorder = rc\<rparr>)
       (Added (ConfigMapObj cm)) = Returned [Signal (AddConfigMap cm)] \<and>
   deliver (configMapHandlers \<lparr>events = Some ev, logger = lg, recorder = rc\<rparr>)
       (Updated (ConfigMapObj old) (ConfigMapObj cur)) =
     (if deepEqualConfigMap old cur then Returned []
      else Returned [Signal (UpdateConfigMap cur)]) \<and>
   deliver (configMapHandlers \<lparr>events = Some ev, logger = lg, recorder = rc\<rparr>) (Deleted x) =
     Returned []"
  by (simp add: configMapHandlers_def OnAdd_def OnUpdate_def OnDelete_def configMapAddFunc_def
      configMapUpdateFunc_def sink_calls)

subsection \<open>Handlers that never look at the payload\<close>

text \<open>
  Claim C10. The add and delete closures of the endpoints informer and the delete
  closure of the pod informer give one \<^verbatim>\<open>Notify\<close> for every payload, a tombstone
  or an object of another kind included: they return, log nothing and send nothing
  else.
\<close>

theorem payload_never_inspected:
  "deliver (endpointHandlers \<lparr>events = Some ev, logger = lg, recorder = rc\<rparr>) (Added x) =
     Returned [Signal Notify] \<and>
   deliver (endpointHandlers \<lparr>events = Some ev, logger = lg, recorder = rc\<rparr>) (Deleted x) =
     Returned [Signal Notify] \<and>
   deliver (podHandlers \<lparr>events = Some ev, logger = lg, recorder = rc\<rparr>) (Deleted x) =
     Returned [Signal Notify]"
  by (simp add: endpointHandlers_def podHandlers_def OnAdd_def OnDelete_def endpointAddFunc_def
      endpointDeleteFunc_def podDeleteFunc_def sink_calls)

subsection \<open>The wait for the caches\<close>

lemma all_kinds_synced:
  "allSynced [Ingress, Endpoints, Service, Secret, ConfigMap, Pod, Node] ob =
     (\<forall>k. hasSynced ob k)"
proof
  assume all: "allSynced [Ingress, Endpoints, Service, Secret, ConfigMap, Pod, Node] ob"
  show "\<forall>k. hasSynced ob k"
  proof
    fix k
    from all show "hasSynced ob k"
      by (cases k) (simp_all add: allSynced_def)
  qed
next
  assume "\<forall>k. hasSynced ob k"
  then show "allSynced [Ingress, Endpoints, Service, Secret, ConfigMap, Pod, Node] ob"
    by (simp add: allSynced_def)
qed

lemma Await_Synced:
  assumes "Await watches obs = Some Synced"
  shows "\<exists>pre ob post. obs = pre @ ob # post \<and> list_all (\<lambda>s. \<not> stopFired s) (pre @ [ob]) \<and>
           list_all (\<lambda>s. \<not> allSynced watches s) pre \<and> allSynced watches ob"
  using assms
proof (induction obs)
  case Nil
  then show ?case by simp
next
  case (Cons o1 obs)
  show ?case
  proof (cases "stopFired o1")
    case True
    with Cons.prems show ?thesis by simp
  next
    case running: False
    show ?thesis
    proof (cases "allSynced watches o1")
      case True
      with running have "o1 # obs = [] @ o1 # obs \<and> list_all (\<lambda>s. \<not> stopFired s) ([] @ [o1]) \<and>
          list_all (\<lambda>s. \<not> allSynced watches s) [] \<and> allSynced watches o1"
        by simp
      then show ?thesis by blast
    next
      case False
      with running Cons.prems have "Await watches obs = Some Synced" by simp
      with Cons.IH obtain pre ob post where
        split: "obs = pre @ ob # post" and
        quiet: "list_all (\<lambda>s. \<not> stopFired s) (pre @ [ob])" and
        partial: "list_all (\<lambda>s. \<not> allSynced watches s) pre" and
        full: "allSynced watches ob"
        by blast
      from split quiet partial full running False
      have "o1 # obs = (o1 # pre) @ ob # post \<and>
          list_all (\<lambda>s. \<not> stopFired s) ((o1 # pre) @ [ob]) \<and>
          list_all (\<lambda>s. \<not> allSynced watches s) (o1 # pre) \<and> allSynced watches ob"
        by simp
      then show ?thesis by blast
    qed
  qed
qed

lemma Await_Cancelled:
  assumes "list_all (\<lambda>s. \<not> allSynced watches s) pre" and "stopFired ob"
  shows "Await watches (pre @ ob # post) = Some Cancelled"
  using assms by (induction pre) simp_all

lemma Await_reaches_Synced:
  assumes "list_all (\<lambda>s. \<not> stopFired s \<and> \<not> allSynced watches s) pre"
    and "\<not> stopFired ob" and "allSynced watches ob"
  shows "Await watches (pre @ ob # post) = Some Synced"
  using assms by (induction pre) simp_all

lemma createListers_cacheSyncs:
  assumes "createListers ev lg rc cl ns rs = Inr l"
  shows "cacheSyncs l = [Ingress, Endpoints, Service, Secret, ConfigMap, Pod, Node]"
  using assms
  by (auto simp add: createListers_def Let_def createIngressLister_def createEndpointLister_def
      createServiceLister_def createSecretLister_def createConfigMapLister_def
      createPodLister_def createNodeLister_def AddEventHandler_def Informer_def
      cacheSyncs_def hasSyncedOf_def split: if_splits)

lemma createListers_RunAsync:
  assumes "createListers ev (Some lg) rc cl ns rs = Inr l"
  shows "RunAsync l obs =
     (case Await [Ingress, Endpoints, Service, Secret, ConfigMap, Pod, Node] obs of
        None \<Rightarrow> None
      | Some Synced \<Rightarrow>
          Some (StartReturned
            [GoRun Ingress, GoRun Endpoints, GoRun Service, GoRun Secret, GoRun ConfigMap,
             GoRun Pod, GoRun Node, LoggerInfo ''loading object cache...'',
             LoggerInfo ''cache successfully synced''])
      | Some Cancelled \<Rightarrow>
          Some (StartReturned
            [GoRun Ingress, GoRun Endpoints, GoRun Service, GoRun Secret, GoRun ConfigMap,
             GoRun Pod, GoRun Node, LoggerInfo ''loading object cache...'',
             HandleError ''initial cache sync has timed out or shutdown has requested'']))"
proof -
  have syncs: "cacheSyncs l = [Ingress, Endpoints, Service, Secret, ConfigMap, Pod, Node]"
    using assms by (rule createListers_cacheSyncs)
  have started: "startThen (goRun (ingressInformer l))
            (startThen (goRun (endpointInformer l))
            (startThen (goRun (serviceInformer l))
            (startThen (goRun (secretInformer l))
            (startThen (goRun (configMapInformer l))
            (startThen (goRun (podInformer l))
            (startThen (goRun (nodeInformer l))
            (loggerInfo l ''loading object cache...''))))))) =
     StartReturned [GoRun Ingress, GoRun Endpoints, GoRun Service, GoRun Secret, GoRun ConfigMap,
             GoRun Pod, GoRun Node, LoggerInfo ''loading object cache...'']"
    using assms
    by (auto simp add: createListers_def Let_def createIngressLister_def createEndpointLister_def
        createServiceLister_def createSecretLister_def createConfigMapLister_def
        createPodLister_def createNodeLister_def AddEventHandler_def Informer_def
        goRun_def loggerInfo_def split: if_splits)
  have lg: "logger l = Some lg"
    using assms
    by (auto simp add: createListers_def Let_def createIngressLister_def createEndpointLister_def
        createServiceLister_def createSecretLister_def createConfigMapLister_def
        createPodLister_def createNodeLister_def split: if_splits)
  show ?thesis
    unfolding RunAsync_def started syncs
    by (simp add: loggerInfo_def lg split: option.splits barrierResult.splits)
qed

text \<open>
  Claim C9. For the struct that \<^verbatim>\<open>createListers\<close> returns, with a logger: the wait
  is over the seven informers. It answers \<open>Synced\<close> only at a poll where all seven have
  synced and the stop signal has fired at no poll up to it. When the stop signal fires at
  a poll before any poll has seen all seven synced, it answers \<open>Cancelled\<close>, whatever
  the seven flags are. On \<open>Cancelled\<close>, \<^verbatim>\<open>RunAsync\<close> hands an error to
  \<^verbatim>\<open>runtime.HandleError\<close> and returns; on \<open>Synced\<close> it logs the success.
\<close>

theorem sync_barrier_results:
  "(case createListers ev (Some lg) rc cl ns rs of
      Inl e \<Rightarrow> False
    | Inr l \<Rightarrow>
        cacheSyncs l = [Ingress, Endpoints, Service, Secret, ConfigMap, Pod, Node] \<and>
        RunAsync l obs =
          (case Await (cacheSyncs l) obs of
             None \<Rightarrow> None
           | Some Synced \<Rightarrow>
               Some (StartReturned
                 [GoRun Ingress, GoRun Endpoints, GoRun Service, GoRun Secret, GoRun ConfigMap,
                  GoRun Pod, GoRun Node, LoggerInfo ''loading object cache...'',
                  LoggerInfo ''cache successfully synced''])
           | Some Cancelled \<Rightarrow>
               Some (StartReturned
                 [GoRun Ingress, GoRun Endpoints, GoRun Service, GoRun Secret, GoRun ConfigMap,
                  GoRun Pod, GoRun Node, LoggerInfo ''loading object cache...'',
                  HandleError ''initial cache sync has timed out or shutdown has requested'']))) \<and>
   (Await [Ingress, Endpoints, Service, Secret, ConfigMap, Pod, Node] obs = Some Synced \<longrightarrow>
      (\<exists>pre ob post. obs = pre @ ob # post \<and> list_all (\<lambda>s. \<not> stopFired s) (pre @ [ob]) \<and>
         (\<forall>k. hasSynced ob k))) \<and>
   (list_all (\<lambda>s. \<exists>k. \<not> hasSynced s k) before \<and> stopFired at \<longrightarrow>
      Await [Ingress, Endpoints, Service, Secret, ConfigMap, Pod, Node] (before @ at # after) =
        Some Cancelled)"
proof (intro conjI impI)
  obtain l where built: "createListers ev (Some lg) rc cl ns rs = Inr l"
    by (simp add: createListers_def Let_def)
  have syncs: "cacheSyncs l = [Ingress, Endpoints, Service, Secret, ConfigMap, Pod, Node]"
    using built by (rule createListers_cacheSyncs)
  from built syncs createListers_RunAsync [OF built, of obs]
  show "case createListers ev (Some lg) rc cl ns rs of
      Inl e \<Rightarrow> False
    | Inr l \<Rightarrow>
        cacheSyncs l = [Ingress, Endpoints, Service, Secret, ConfigMap, Pod, Node] \<and>
        RunAsync l obs =
          (case Await (cacheSyncs l) obs of
             None \<Rightarrow> None
           | Some Synced \<Rightarrow>
               Some (StartReturned
                 [GoRun Ingress, GoRun Endpoints, GoRun Service, GoRun Secret, GoRun ConfigMap,
                  GoRun Pod, GoRun Node, LoggerInfo ''loading object cache...'',
                  LoggerInfo ''cache successfully synced''])
           | Some Cancelled \<Rightarrow>
               Some (StartReturned
                 [GoRun Ingress, GoRun Endpoints, GoRun Service, GoRun Secret, GoRun ConfigMap,
                  GoRun Pod, GoRun Node, LoggerInfo ''loading object cache...'',
                  HandleError ''initial cache sync has timed out or shutdown has requested'']))"
    by simp
next
  assume "Await [Ingress, Endpoints, Service, Secret, ConfigMap, Pod, Node] obs = Some Synced"
  then obtain pre ob post where "obs = pre @ ob # post"
    and "list_all (\<lambda>s. \<not> stopFired s) (pre @ [ob])"
    and "allSynced [Ingress, Endpoints, Service, Secret, ConfigMap, Pod, Node] ob"
    using Await_Synced by blast
  then show "\<exists>pre ob post. obs = pre @ ob # post \<and> list_all (\<lambda>s. \<not> stopFired s) (pre @ [ob]) \<and>
         (\<forall>k. hasSynced ob k)"
    unfolding all_kinds_synced by blast
next
  assume "list_all (\<lambda>s. \<exists>k. \<not> hasSynced s k) before \<and> stopFired at"
  then have "list_all (\<lambda>s. \<not> allSynced [Ingress, Endpoints, Service, Secret, ConfigMap, Pod, Node] s)
      before" and "stopFired at"
    by (simp_all add: all_kinds_synced)
  then show "Await [Ingress, Endpoints, Service, Secret, ConfigMap, Pod, Node] (before @ at # after) =
        Some Cancelled"
    by (rule Await_Cancelled)
qed

theorem sync_barrier_results_witness:
  "Await [Ingress, Endpoints, Service, Secret, ConfigMap, Pod, Node]
     [\<lparr>stopFired = False, hasSynced = (\<lambda>k. k \<noteq> Node)\<rparr>,
      \<lparr>stopFired = True, hasSynced = (\<lambda>k. k \<noteq> Node)\<rparr>] = Some Cancelled \<and>
   (\<exists>pre ob post.
      [\<lparr>stopFired = False, hasSynced = (\<lambda>k. k \<noteq> Node)\<rparr>,
       \<lparr>stopFired = False, hasSynced = (\<lambda>k. True)\<rparr>] = pre @ ob # post \<and>
      list_all (\<lambda>s. \<not> stopFired s) (pre @ [ob]) \<and> (\<forall>k. hasSynced ob k))"
  using sync_barrier_results
    [where ev = None and lg = LoggerImpl and rc = None and cl = "Clientset ''cluster''"
       and ns = "[]" and rs = 0
       and obs = "[\<lparr>stopFired = False, hasSynced = (\<lambda>k. k \<noteq> Node)\<rparr>,
                  \<lparr>stopFired = False, hasSynced = (\<lambda>k. True)\<rparr>]"
       and before = "[\<lparr>stopFired = False, hasSynced = (\<lambda>k. k \<noteq> Node)\<rparr>]"
       and at = "\<lparr>stopFired = True, hasSynced = (\<lambda>k. k \<noteq> Node)\<rparr>"
       and after = "[]", THEN conjunct2]
  by (simp add: allSynced_def)

end
